theory Spec2Isabelle
  imports Complex_Main "HOL-Library.Sublist"
begin

section \<open>Data model of app/(tabs)/index.tsx\<close>

text \<open>
  The screen component \<open>HomeScreen\<close> asks the vision service for labels and turns them
  into one spoken sentence. The records below are the parts of the service's answer that
  the component reads. Every field is optional in the service's types, hence \<open>option\<close>.

  Numbers of the source are IEEE doubles. They are modelled as \<open>real\<close>: a decimal literal
  stands for its decimal value and arithmetic is exact. \<open>NaN\<close> and the infinities are not
  modelled. A sum or a product of the source is rounded to the nearest double, so its
  value can differ from the exact one in the last place (line 214 gives 0.7000000000000001
  for 0.55 + 0.3 / 2); comparisons are not rounded. Strings are sequences of code units
  below 256.
\<close>

record bounding_box =
  Width :: "real option"
  Height :: "real option"
  Left :: "real option"
  Top :: "real option"

record label_instance =
  BoundingBox :: "bounding_box option"

record label =
  Name :: "string option"
  Confidence :: "real option"
  Instances :: "label_instance list option"

subsection \<open>Host operations used by the component\<close>

text \<open>\<open>x || 0\<close> on an optional number: a missing field and \<open>0\<close> both give \<open>0\<close>.\<close>

definition orZero :: "real option \<Rightarrow> real" where
  "orZero x = (case x of None \<Rightarrow> 0 | Some v \<Rightarrow> v)"

text \<open>
  \<open>String.prototype.toLowerCase\<close> on code units below 256: the letters A to Z and the
  accented capitals 0xC0 to 0xDE (the multiplication sign 0xD7 apart) move up by 32.
\<close>

definition toLowerCaseChar :: "char \<Rightarrow> char" where
  "toLowerCaseChar c =
     (let n = (of_char c :: nat)
      in if (65 \<le> n \<and> n \<le> 90) \<or> (192 \<le> n \<and> n \<le> 222 \<and> n \<noteq> 215)
         then char_of (n + 32) else c)"

definition toLowerCase :: "string \<Rightarrow> string" where
  "toLowerCase s = map toLowerCaseChar s"

text \<open>\<open>String.prototype.includes\<close>: does \<open>cat\<close> occur in \<open>s\<close> as a contiguous run?\<close>

fun startsWith :: "string \<Rightarrow> string \<Rightarrow> bool" where
  "startsWith s [] = True"
| "startsWith [] (c # cs) = False"
| "startsWith (x # xs) (c # cs) = (x = c \<and> startsWith xs cs)"

fun includes_str :: "string \<Rightarrow> string \<Rightarrow> bool" where
  "includes_str [] cat = (cat = [])"
| "includes_str (x # xs) cat = (startsWith (x # xs) cat \<or> includes_str xs cat)"

text \<open>\<open>Math.round\<close>: the nearest integer, a tie going up.\<close>

definition Math_round :: "real \<Rightarrow> real" where
  "Math_round x = of_int \<lfloor>x + 1 / 2\<rfloor>"

section \<open>The label filter (lines 149 to 164)\<close>

definition excludeCategories :: "string list" where
  "excludeCategories =
     [''interior design'', ''architecture'', ''room'', ''indoors'', ''outdoors'',
      ''building'', ''floor'', ''wall'', ''ceiling'', ''flooring'', ''hardwood'',
      ''wood'', ''lighting'', ''urban'', ''city'', ''nature'', ''scenery'', ''landscape'',
      ''housing'', ''shelter'', ''home decor'', ''art'', ''modern art'', ''abstract'']"

text \<open>
  \<open>label.Name?.toLowerCase() || dflt\<close>: a missing name and the empty name both give the
  default.
\<close>

definition lowerName :: "label \<Rightarrow> string \<Rightarrow> string" where
  "lowerName l dflt =
     (case Name l of
        None \<Rightarrow> dflt
      | Some n \<Rightarrow> if toLowerCase n = [] then dflt else toLowerCase n)"

text \<open>The callback given to \<open>allLabels.filter\<close>.\<close>

definition keepLabel :: "label \<Rightarrow> bool" where
  "keepLabel l =
     (let name = lowerName l []
      in if list_ex (\<lambda>cat. includes_str name cat) excludeCategories then False
         else (case Instances l of None \<Rightarrow> False | Some is \<Rightarrow> length is > 0))"

definition physicalObjects :: "label list \<Rightarrow> label list" where
  "physicalObjects allLabels = filter keepLabel allLabels"

text \<open>\<open>physicalObjects.slice(0, 3)\<close>.\<close>

definition topObjects :: "label list \<Rightarrow> label list" where
  "topObjects phys = take 3 phys"

section \<open>Distance and direction of one object (lines 193 to 244)\<close>

definition boxArea :: "bounding_box \<Rightarrow> real" where
  "boxArea box = orZero (Width box) * orZero (Height box)"

text \<open>The chain of comparisons on the area, largest first.\<close>

definition distanceOfArea :: "real \<Rightarrow> string" where
  "distanceOfArea a =
     (if a > 0.3 then ''2 to 3 feet''
      else if a > 0.15 then ''4 to 6 feet''
      else if a > 0.08 then ''8 to 10 feet''
      else if a > 0.04 then ''12 to 15 feet''
      else ''more than 15 feet'')"

text \<open>
  The centre of the box (lines 214 and 215), here with the exact sum; the source has the
  rounded one.
\<close>

definition centerX :: "bounding_box \<Rightarrow> real" where
  "centerX box = orZero (Left box) + orZero (Width box) / 2"

definition centerY :: "bounding_box \<Rightarrow> real" where
  "centerY box = orZero (Top box) + orZero (Height box) / 2"

definition horizontal :: "real \<Rightarrow> string" where
  "horizontal cx =
     (if cx < 0.3 then ''on your left''
      else if cx > 0.7 then ''on your right''
      else ''in front of you'')"

definition vertical :: "real \<Rightarrow> string" where
  "vertical cy =
     (if cy < 0.3 then ''above''
      else if cy > 0.7 then ''below''
      else [])"

text \<open>
  Lines 217 to 242: the phrase for the centre \<open>(cx, cy)\<close> that lines 214 and 215 have
  computed. The empty string is falsy, so \<open>if (vertical \<dots>)\<close> tests for a non-empty
  string.
\<close>

definition directionOfCenter :: "real \<Rightarrow> real \<Rightarrow> string" where
  "directionOfCenter cx cy =
     (let h = horizontal cx; v = vertical cy
      in if v \<noteq> [] \<and> h \<noteq> ''in front of you'' then v @ '' and '' @ h
         else if v \<noteq> [] then v @ '' '' @ h
         else h)"

definition directionOfBox :: "bounding_box \<Rightarrow> string" where
  "directionOfBox box = directionOfCenter (centerX box) (centerY box)"

text \<open>
  The box the callback looks at: \<open>label.Instances[0].BoundingBox\<close>, when the list of
  instances is there and not empty and that instance has a box.
\<close>

definition firstBox :: "label \<Rightarrow> bounding_box option" where
  "firstBox l =
     (case Instances l of
        None \<Rightarrow> None
      | Some [] \<Rightarrow> None
      | Some (inst # rest) \<Rightarrow> BoundingBox inst)"

definition objectDistance :: "label \<Rightarrow> string" where
  "objectDistance l = (case firstBox l of None \<Rightarrow> [] | Some box \<Rightarrow> distanceOfArea (boxArea box))"

definition direction :: "label \<Rightarrow> string" where
  "direction l = (case firstBox l of None \<Rightarrow> [] | Some box \<Rightarrow> directionOfBox box)"

section \<open>Assembling the sentence (lines 172 to 265)\<close>

text \<open>\<open>!realDistance\<close>: true for \<open>null\<close> and for the number zero.\<close>

definition falsy :: "real option \<Rightarrow> bool" where
  "falsy realDistance = (case realDistance of None \<Rightarrow> True | Some d \<Rightarrow> d = 0)"

text \<open>
  One call of the callback given to \<open>topObjects.forEach\<close>: the description so far, the
  index and the label give the description after it.
\<close>

definition describeObject :: "real option \<Rightarrow> string \<Rightarrow> nat \<Rightarrow> label \<Rightarrow> string" where
  "describeObject realDistance description index l =
     (let name = lowerName l ''object'';
          d1 = (if index = 0 then description @ ''I see a '' @ name
                else description @ '', a '' @ name);
          d2 = (if objectDistance l \<noteq> [] \<and> falsy realDistance
                then d1 @ '' about '' @ objectDistance l @ '' away'' else d1);
          d3 = (if direction l \<noteq> [] then d2 @ '' '' @ direction l else d2)
      in d3)"

fun forEach :: "real option \<Rightarrow> nat \<Rightarrow> label list \<Rightarrow> string \<Rightarrow> string" where
  "forEach realDistance index [] description = description"
| "forEach realDistance index (l # ls) description =
     forEach realDistance (index + 1) ls (describeObject realDistance description index l)"

definition fallback :: string where
  "fallback =
     ''No specific objects detected. Try pointing at a clear object like a person, chair, or bottle.''"

text \<open>
  The block that computes \<open>description\<close> from \<open>physicalObjects\<close> and \<open>realDistance\<close>.
  The template literal turns the rounded distance into text with the host's conversion of
  a number to a string, which is the parameter \<open>numberToString\<close>.
\<close>

definition synthesize :: "(real \<Rightarrow> string) \<Rightarrow> label list \<Rightarrow> real option \<Rightarrow> string" where
  "synthesize numberToString phys realDistance =
     (if length phys > 0 then
        (let top = topObjects phys;
             lead = (case realDistance of
                       Some d \<Rightarrow>
                         ''Objects are approximately ''
                           @ numberToString (Math_round (d * 10) / 10) @ '' feet away. ''
                     | None \<Rightarrow> ''Objects detected. '')
         in forEach realDistance 0 top lead @ ''.'')
      else fallback)"

text \<open>Filter and synthesis together: from the service's labels to the description.\<close>

definition describeLabels :: "(real \<Rightarrow> string) \<Rightarrow> label list \<Rightarrow> real option \<Rightarrow> string" where
  "describeLabels numberToString allLabels realDistance =
     synthesize numberToString (physicalObjects allLabels) realDistance"

section \<open>One capture cycle (\<open>takePicture\<close>, lines 100 to 285)\<close>

text \<open>
  The cycle talks to the camera, the storage service, the vision service, the depth sensor
  and the speech engine. What each of them answers in one cycle is a field of the record
  \<open>world\<close>; a promise is \<open>Resolved\<close> or \<open>Rejected\<close> with the value thrown. The calls the
  cycle makes and the state setters it calls are recorded, in order, as a list of events;
  \<open>stateAfter\<close> replays the setters on the component's state. Console logging is left out.
  A thrown value is an object with the optional fields \<open>code\<close> and \<open>message\<close> and the text
  its \<open>toString()\<close> gives.
\<close>

record js_error =
  code :: "string option"
  message :: "string option"
  toString :: string

datatype 'a outcome = Resolved 'a | Rejected js_error

record photo =
  base64 :: "string option"

datatype speech_outcome = Spoken | StopFailed js_error | SpeakFailed js_error

record app_state =
  analyzing :: bool
  result :: string
  hasLiDAR :: bool
  arSessionActive :: bool

record world =
  CameraModule :: bool
  ARKitDepthModule :: bool
  S3_BUCKET :: string
  numberToString :: "real \<Rightarrow> string"
  atob :: "string \<Rightarrow> string outcome"
  Date_now :: real
  Speech :: "string \<Rightarrow> speech_outcome"
  CameraModule_takePicture :: "photo option outcome"
  s3Client_send :: "unit outcome"
  rekognitionClient_send :: "label list option outcome"
  getDepthAtCenter :: "real option outcome"

datatype event =
    SetAnalyzing bool
  | SetResult string
  | SpeechStop
  | SpeechSpeak string
  | AlertAlert string string
  | TakePicture
  | S3Send string string "nat list"
  | RekognitionSend string string nat nat
  | DepthAtCenter

fun applyEvent :: "app_state \<Rightarrow> event \<Rightarrow> app_state" where
  "applyEvent s (SetAnalyzing b) = s\<lparr>analyzing := b\<rparr>"
| "applyEvent s (SetResult r) = s\<lparr>result := r\<rparr>"
| "applyEvent s _ = s"

definition stateAfter :: "app_state \<Rightarrow> event list \<Rightarrow> app_state" where
  "stateAfter s tr = foldl applyEvent s tr"

text \<open>An optional string inside a template literal.\<close>

definition templateString :: "string option \<Rightarrow> string" where
  "templateString v = (case v of None \<Rightarrow> ''undefined'' | Some t \<Rightarrow> t)"

definition speakText :: "world \<Rightarrow> string \<Rightarrow> event list" where
  "speakText w text =
     (case Speech w text of
        Spoken \<Rightarrow> [SpeechStop, SpeechSpeak text]
      | StopFailed err \<Rightarrow>
          [SpeechStop, AlertAlert ''TTS Error'' (''Could not speak: '' @ templateString (message err))]
      | SpeakFailed err \<Rightarrow>
          [SpeechStop, SpeechSpeak text,
           AlertAlert ''TTS Error'' (''Could not speak: '' @ templateString (message err))])"

definition getARKitDistance :: "world \<Rightarrow> app_state \<Rightarrow> event list \<times> real option" where
  "getARKitDistance w s =
     (if \<not> hasLiDAR s \<or> \<not> ARKitDepthModule w then ([], None)
      else (case getDepthAtCenter w of
              Resolved distance \<Rightarrow> ([DepthAtCenter], distance)
            | Rejected err \<Rightarrow> ([DepthAtCenter], None)))"

text \<open>The loop copies the code unit of every character of \<open>atob(base64)\<close>.\<close>

definition base64ToUint8Array :: "world \<Rightarrow> string \<Rightarrow> nat list outcome" where
  "base64ToUint8Array w b64 =
     (case atob w b64 of
        Rejected err \<Rightarrow> Rejected err
      | Resolved binaryString \<Rightarrow> Resolved (map of_char binaryString))"

text \<open>\<open>new Error(msg)\<close>.\<close>

definition newError :: "string \<Rightarrow> js_error" where
  "newError msg = \<lparr>code = None, message = Some msg, toString = ''Error: '' @ msg\<rparr>"

text \<open>
  The \<open>try\<close> block up to the point where the filtered labels and the distance reading are
  known (lines 107 to 170): capture, upload, detection, filter, depth reading. It gives
  the events so far and either the value thrown or the pair that the description is
  computed from.
\<close>

definition gather :: "world \<Rightarrow> app_state \<Rightarrow> event list \<times> (js_error + label list \<times> real option)" where
  "gather w s =
     (case CameraModule_takePicture w of
        Rejected err \<Rightarrow> ([TakePicture], Inl err)
      | Resolved photo \<Rightarrow>
          (case (case photo of None \<Rightarrow> None | Some p \<Rightarrow> base64 p) of
             None \<Rightarrow> ([TakePicture], Inl (newError ''No image data''))
           | Some b64 \<Rightarrow>
               if b64 = [] then ([TakePicture], Inl (newError ''No image data''))
               else
                 (let ev1 = [TakePicture, SetResult ''Analyzing image...''] @ speakText w ''Analyzing'';
                      key = ''analysis/'' @ numberToString w (Date_now w) @ ''.jpg''
                  in case base64ToUint8Array w b64 of
                       Rejected err \<Rightarrow> (ev1, Inl err)
                     | Resolved imageBytes \<Rightarrow>
                         (let ev2 = ev1 @ [S3Send (S3_BUCKET w) key imageBytes]
                          in case s3Client_send w of
                               Rejected err \<Rightarrow> (ev2, Inl err)
                             | Resolved u \<Rightarrow>
                                 (let ev3 = ev2 @ [RekognitionSend (S3_BUCKET w) key 10 70]
                                  in case rekognitionClient_send w of
                                       Rejected err \<Rightarrow> (ev3, Inl err)
                                     | Resolved labels \<Rightarrow>
                                         (let allLabels = (case labels of None \<Rightarrow> [] | Some ls \<Rightarrow> ls);
                                              phys = physicalObjects allLabels;
                                              (ev4, realDistance) =
                                                (if hasLiDAR s then getARKitDistance w s else ([], None))
                                          in (ev3 @ ev4, Inr (phys, realDistance))))))))"

text \<open>The whole \<open>try\<close> block: the description is computed, shown and spoken.\<close>

definition tryBlock :: "world \<Rightarrow> app_state \<Rightarrow> event list \<times> js_error option" where
  "tryBlock w s =
     (case gather w s of
        (evs, Inl err) \<Rightarrow> (evs, Some err)
      | (evs, Inr (phys, realDistance)) \<Rightarrow>
          (let description = synthesize (numberToString w) phys realDistance
           in (evs @ [SetResult description] @ speakText w description, None)))"

text \<open>\<open>error?.message || error?.toString() || 'Unknown error'\<close>.\<close>

definition errorDetails :: "js_error \<Rightarrow> string" where
  "errorDetails err =
     (let m = (case message err of None \<Rightarrow> [] | Some t \<Rightarrow> t)
      in if m \<noteq> [] then m
         else if toString err \<noteq> [] then toString err
         else ''Unknown error'')"

text \<open>The \<open>catch\<close> block. A cancelled capture returns at once; \<open>finally\<close> still runs.\<close>

definition catchBlock :: "world \<Rightarrow> js_error \<Rightarrow> event list" where
  "catchBlock w err =
     (if code err = Some ''CANCELLED'' then [SetResult [], SetAnalyzing False]
      else [SetResult (''Analysis failed: '' @ errorDetails err)]
             @ speakText w ''Analysis failed. Please try again.'')"

definition takePicture :: "world \<Rightarrow> app_state \<Rightarrow> event list" where
  "takePicture w s =
     (if analyzing s \<or> \<not> CameraModule w then []
      else
        [SetAnalyzing True] @ speakText w ''Opening camera''
          @ (case tryBlock w s of
               (evs, None) \<Rightarrow> evs
             | (evs, Some err) \<Rightarrow> evs @ catchBlock w err)
          @ [SetAnalyzing False])"


section \<open>Notions used to state the properties\<close>

text \<open>
  The distance phrases from the nearest to the farthest, and the place of a phrase in
  that order.
\<close>

definition distancePhrases :: "string list" where
  "distancePhrases =
     [''2 to 3 feet'', ''4 to 6 feet'', ''8 to 10 feet'', ''12 to 15 feet'', ''more than 15 feet'']"

definition farness :: "string \<Rightarrow> nat" where
  "farness phrase = length (takeWhile (\<lambda>p. p \<noteq> phrase) distancePhrases)"




text \<open>A label with every instance after the first one removed.\<close>

definition firstInstanceOnly :: "label \<Rightarrow> label" where
  "firstInstanceOnly l = l\<lparr>Instances := map_option (take 1) (Instances l)\<rparr>"

text \<open>The events of a cycle that follow the call of the camera.\<close>

definition afterCapture :: "event list \<Rightarrow> event list" where
  "afterCapture tr = tl (dropWhile (\<lambda>ev. ev \<noteq> TakePicture) tr)"

section \<open>Example inputs\<close>

text \<open>
  The host's conversion of a number to text, on the numbers the examples print: whole
  numbers and numbers with one decimal place, of moderate size.
\<close>

function showNat :: "nat \<Rightarrow> string" where
  "showNat n =
     (if n < 10 then [char_of (48 + n)] else showNat (n div 10) @ [char_of (48 + n mod 10)])"
  by pat_completeness auto
termination
  by (relation "measure (\<lambda>n. n)") auto

definition decimalString :: "real \<Rightarrow> string" where
  "decimalString x =
     (let t = \<lfloor>x * 10 + 1 / 2\<rfloor>; a = nat \<bar>t\<bar>
      in (if t < 0 then ''-'' else [])
           @ showNat (a div 10)
           @ (if a mod 10 = 0 then [] else ''.'' @ showNat (a mod 10)))"

definition chairLabel :: label where
  "chairLabel =
     \<lparr>Name = Some ''chair'', Confidence = Some 98,
      Instances = Some [\<lparr>BoundingBox =
        Some \<lparr>Width = Some 0.3, Height = Some 0.3, Left = Some 0.1, Top = Some 0.4\<rparr>\<rparr>]\<rparr>"

definition interiorLabel :: label where
  "interiorLabel =
     \<lparr>Name = Some ''interior design'', Confidence = Some 99,
      Instances = Some [\<lparr>BoundingBox =
        Some \<lparr>Width = Some 1, Height = Some 1, Left = Some 0, Top = Some 0\<rparr>\<rparr>]\<rparr>"

definition artworkLabel :: label where
  "artworkLabel =
     \<lparr>Name = Some ''Modern Artwork'', Confidence = Some 99.9,
      Instances = Some [\<lparr>BoundingBox = None\<rparr>, \<lparr>BoundingBox = None\<rparr>]\<rparr>"

definition bottleLabel :: label where
  "bottleLabel = \<lparr>Name = Some ''Bottle'', Confidence = Some 97, Instances = Some []\<rparr>"

definition personLabel :: label where
  "personLabel =
     \<lparr>Name = Some ''Person'', Confidence = Some 96,
      Instances = Some [\<lparr>BoundingBox =
        Some \<lparr>Width = Some 0.4, Height = Some 0.9, Left = Some 0.3, Top = Some 0.05\<rparr>\<rparr>]\<rparr>"

definition cupLabel :: label where
  "cupLabel =
     \<lparr>Name = Some ''Cup'', Confidence = Some 90,
      Instances = Some [\<lparr>BoundingBox =
        Some \<lparr>Width = Some 0.1, Height = Some 0.1, Left = Some 0.85, Top = Some 0.8\<rparr>\<rparr>]\<rparr>"

definition lampLabel :: label where
  "lampLabel =
     \<lparr>Name = Some ''Lamp'', Confidence = Some 85,
      Instances = Some [\<lparr>BoundingBox = None\<rparr>,
        \<lparr>BoundingBox =
          Some \<lparr>Width = Some 0.5, Height = Some 0.8, Left = Some 0, Top = Some 0\<rparr>\<rparr>]\<rparr>"

definition sceneLabels :: "label list" where
  "sceneLabels =
     [chairLabel, interiorLabel, bottleLabel, personLabel, artworkLabel, cupLabel, lampLabel]"

definition cancelledError :: js_error where
  "cancelledError =
     \<lparr>code = Some ''CANCELLED'', message = Some ''User cancelled'',
      toString = ''Error: User cancelled''\<rparr>"

definition sensorError :: js_error where
  "sensorError =
     \<lparr>code = None, message = Some ''No depth data'', toString = ''Error: No depth data''\<rparr>"

definition idleState :: app_state where
  "idleState =
     \<lparr>analyzing = False, result = ''Analysis failed: Network request failed'',
      hasLiDAR = False, arSessionActive = False\<rparr>"

definition lidarState :: app_state where
  "lidarState = \<lparr>analyzing = False, result = [], hasLiDAR = True, arSessionActive = True\<rparr>"

definition plainWorld :: world where
  "plainWorld =
     \<lparr>CameraModule = True, ARKitDepthModule = False, S3_BUCKET = ''your-bucket-name'',
      numberToString = decimalString, atob = (\<lambda>b. Resolved ''JPEG''), Date_now = 1234,
      Speech = (\<lambda>t. Spoken),
      CameraModule_takePicture = Resolved (Some \<lparr>base64 = Some ''SlBFRw==''\<rparr>),
      s3Client_send = Resolved (),
      rekognitionClient_send = Resolved (Some [chairLabel, interiorLabel]),
      getDepthAtCenter = Rejected sensorError\<rparr>"

definition lidarWorld :: world where
  "lidarWorld =
     plainWorld\<lparr>ARKitDepthModule := True, S3_BUCKET := ''see-with-you'', Date_now := 5678,
       Speech := (\<lambda>t. SpeakFailed sensorError),
       rekognitionClient_send := Resolved (Some [interiorLabel, chairLabel])\<rparr>"

definition zeroDepthWorld :: world where
  "zeroDepthWorld = plainWorld\<lparr>ARKitDepthModule := True, getDepthAtCenter := Resolved (Some 0)\<rparr>"

definition cancelWorld :: world where
  "cancelWorld = plainWorld\<lparr>CameraModule_takePicture := Rejected cancelledError\<rparr>"

section \<open>Properties of the filter\<close>

lemma startsWith_prefix: "startsWith s c = prefix c s"
  by (induction s c rule: startsWith.induct) auto

lemma includes_str_sublist: "includes_str s c = sublist c s"
  by (induction s) (auto simp: startsWith_prefix sublist_Cons_right)

lemma includes_str_iff: "includes_str s c \<longleftrightarrow> (\<exists>pre post. s = pre @ c @ post)"
  by (simp add: includes_str_sublist sublist_def)

lemma keepLabel_denylisted:
  assumes "Name l = Some n" and "cat \<in> set excludeCategories"
    and "toLowerCase n = pre @ cat @ post"
  shows "\<not> keepLabel l"
proof -
  have "lowerName l [] = toLowerCase n"
    using assms(1) by (simp add: lowerName_def)
  moreover have "includes_str (toLowerCase n) cat"
    using assms(3) includes_str_iff by blast
  ultimately have "list_ex (\<lambda>c. includes_str (lowerName l []) c) excludeCategories"
    using assms(2) by (auto simp: list_ex_iff)
  then show ?thesis
    by (simp add: keepLabel_def)
qed

lemma keepLabel_instances: "keepLabel l \<Longrightarrow> \<exists>inst rest. Instances l = Some (inst # rest)"
  unfolding keepLabel_def Let_def
  by (cases "Instances l") (auto split: if_splits simp: neq_Nil_conv)

lemma take_subseq: "subseq (take n xs) xs"
  by (rule prefix_imp_subseq) (rule take_is_prefix)

lemma topObjects_subset: "l \<in> set (topObjects phys) \<Longrightarrow> l \<in> set phys"
  unfolding topObjects_def by (rule in_set_takeD)

text \<open>
  Claim C5. A label whose lowercased name contains an entry of the denylist, anywhere in
  the name, is not among the filtered labels, whatever its confidence and its instances.
\<close>

theorem denylisted_label_excluded:
  assumes "Name l = Some n" and "cat \<in> set excludeCategories"
    and "toLowerCase n = pre @ cat @ post"
  shows "l \<notin> set (physicalObjects allLabels) \<and> l \<notin> set (topObjects (physicalObjects allLabels))"
proof -
  have "\<not> keepLabel l"
    using assms by (rule keepLabel_denylisted)
  then have "l \<notin> set (physicalObjects allLabels)"
    by (simp add: physicalObjects_def)
  then show ?thesis
    using topObjects_subset by blast
qed

text \<open>
  The theorem at the label "Modern Artwork" with confidence 99.9 and two instances: its
  lowercased name contains "art".
\<close>

theorem denylisted_label_excluded_witness:
  "Name artworkLabel = Some ''Modern Artwork''
   \<and> ''art'' \<in> set excludeCategories
   \<and> toLowerCase ''Modern Artwork'' = ''modern '' @ ''art'' @ ''work''
   \<and> artworkLabel \<notin> set (physicalObjects sceneLabels)
   \<and> artworkLabel \<notin> set (topObjects (physicalObjects sceneLabels))"
proof -
  have h1: "Name artworkLabel = Some ''Modern Artwork''"
    by (simp add: artworkLabel_def)
  have h2: "''art'' \<in> set excludeCategories"
    by (simp add: excludeCategories_def)
  have h3: "toLowerCase ''Modern Artwork'' = ''modern '' @ ''art'' @ ''work''"
    by code_simp
  show ?thesis
    using h1 h2 h3 denylisted_label_excluded [OF h1 h2 h3, of sceneLabels] by blast
qed

text \<open>
  Claim C6. The filter followed by the cut to three gives at most three labels, in the
  order they have in the input, and every label that passes the filter has at least one
  instance.
\<close>

theorem filter_cap_and_order:
  "length (topObjects (physicalObjects allLabels)) \<le> 3
   \<and> subseq (topObjects (physicalObjects allLabels)) allLabels
   \<and> (\<forall>l \<in> set (physicalObjects allLabels). \<exists>inst rest. Instances l = Some (inst # rest))"
proof (intro conjI ballI)
  show "length (topObjects (physicalObjects allLabels)) \<le> 3"
    by (simp add: topObjects_def)
next
  have "subseq (topObjects (physicalObjects allLabels)) (physicalObjects allLabels)"
    unfolding topObjects_def by (rule take_subseq)
  moreover have "subseq (physicalObjects allLabels) allLabels"
    unfolding physicalObjects_def by (rule subseq_filter_left)
  ultimately show "subseq (topObjects (physicalObjects allLabels)) allLabels"
    by (rule subseq_order.trans)
next
  fix l
  assume "l \<in> set (physicalObjects allLabels)"
  then have "keepLabel l"
    unfolding physicalObjects_def by simp
  then show "\<exists>inst rest. Instances l = Some (inst # rest)"
    by (rule keepLabel_instances)
qed

text \<open>
  The theorem at a scene of seven labels: four pass the filter, the first three of them
  are kept, the bottle without instances is not.
\<close>

theorem filter_cap_and_order_witness:
  "physicalObjects sceneLabels = [chairLabel, personLabel, cupLabel, lampLabel]
   \<and> topObjects (physicalObjects sceneLabels) = [chairLabel, personLabel, cupLabel]
   \<and> length (topObjects (physicalObjects sceneLabels)) \<le> 3
   \<and> subseq (topObjects (physicalObjects sceneLabels)) sceneLabels
   \<and> (\<exists>inst rest. Instances lampLabel = Some (inst # rest))
   \<and> bottleLabel \<notin> set (physicalObjects sceneLabels)"
proof -
  note t = filter_cap_and_order [of sceneLabels]
  have p: "physicalObjects sceneLabels = [chairLabel, personLabel, cupLabel, lampLabel]"
    by code_simp
  have q: "topObjects (physicalObjects sceneLabels) = [chairLabel, personLabel, cupLabel]"
    by code_simp
  have "lampLabel \<in> set (physicalObjects sceneLabels)"
    unfolding p by simp
  with t have lamp: "\<exists>inst rest. Instances lampLabel = Some (inst # rest)"
    by blast
  have "Instances bottleLabel = Some []"
    by (simp add: bottleLabel_def)
  with t have bottle: "bottleLabel \<notin> set (physicalObjects sceneLabels)"
    by fastforce
  show ?thesis
    using p q t lamp bottle by blast
qed

section \<open>Properties of distance and direction\<close>

lemma farness_values:
  "farness ''2 to 3 feet'' = 0" "farness ''4 to 6 feet'' = 1" "farness ''8 to 10 feet'' = 2"
  "farness ''12 to 15 feet'' = 3" "farness ''more than 15 feet'' = 4"
  by (simp_all add: farness_def distancePhrases_def)

text \<open>
  Claim C4. Every area falls into one of the five phrases, and a smaller area never gets
  a nearer phrase than a larger one.
\<close>

theorem distance_bucket_monotone:
  "distanceOfArea a1 \<in> set distancePhrases
   \<and> (a1 < a2 \<longrightarrow> farness (distanceOfArea a2) \<le> farness (distanceOfArea a1))"
proof
  show "distanceOfArea a1 \<in> set distancePhrases"
    by (simp add: distanceOfArea_def distancePhrases_def)
next
  show "a1 < a2 \<longrightarrow> farness (distanceOfArea a2) \<le> farness (distanceOfArea a1)"
    by (simp add: distanceOfArea_def farness_values)
qed

text \<open>The theorem at the areas 0.09 and 0.2, which fall into different phrases.\<close>

theorem distance_bucket_monotone_witness:
  "(9 / 100 :: real) < 1 / 5
   \<and> distanceOfArea (9 / 100) = ''8 to 10 feet''
   \<and> distanceOfArea (1 / 5) = ''4 to 6 feet''
   \<and> farness (distanceOfArea (1 / 5)) \<le> farness (distanceOfArea (9 / 100))"
  using distance_bucket_monotone [of "9 / 100" "1 / 5"] by (simp add: distanceOfArea_def)

lemma distanceOfArea_not_empty: "distanceOfArea a \<noteq> []"
  by (simp add: distanceOfArea_def)

lemma directionOfCenter_not_empty: "directionOfCenter cx cy \<noteq> []"
  by (simp add: directionOfCenter_def horizontal_def Let_def)

lemma directionOfBox_not_empty: "directionOfBox box \<noteq> []"
  by (simp add: directionOfBox_def directionOfCenter_not_empty)


section \<open>Properties of the sentence\<close>

text \<open>
  Claim C3. With no filtered label the description is the fixed sentence, whatever the
  distance reading is.
\<close>

theorem synthesize_empty_fallback:
  "synthesize numToStr [] realDistance
     = ''No specific objects detected. Try pointing at a clear object like a person, chair, or bottle.''"
  by (simp add: synthesize_def fallback_def)

lemma not_keep_interior_design:
  "\<not> keepLabel \<lparr>Name = Some ''interior design'', Confidence = c, Instances = insts\<rparr>"
proof -
  have "''interior design'' \<in> set excludeCategories"
    by (simp add: excludeCategories_def)
  moreover have "toLowerCase ''interior design'' = [] @ ''interior design'' @ []"
    by code_simp
  ultimately show ?thesis
    by (intro keepLabel_denylisted [of _ "''interior design''" "''interior design''" "[]" "[]"])
      simp_all
qed

lemma keep_chair:
  "keepLabel \<lparr>Name = Some ''chair'', Confidence = c, Instances = Some [inst]\<rparr>"
proof -
  have a: "list_ex (includes_str ''chair'') excludeCategories = False"
    by code_simp
  have b: "toLowerCase ''chair'' = ''chair''"
    by code_simp
  show ?thesis
    by (simp add: keepLabel_def lowerName_def a b)
qed

text \<open>
  Claim C1, with the phrase that the area 0.09 gets. For the chair with the box (left 0.1, top 0.4, width 0.3,
  height 0.3) followed by "interior design", with no distance reading, the filter keeps
  the chair alone and the description is "Objects detected. I see a chair about 8 to 10
  feet away on your left." The area 0.09 is above 0.08 and not above 0.15. The
  confidences and the instances of "interior design" are arbitrary.
\<close>

theorem scenario_chair_interior_design:
  "physicalObjects
     [\<lparr>Name = Some ''chair'', Confidence = c1,
       Instances = Some [\<lparr>BoundingBox =
         Some \<lparr>Width = Some 0.3, Height = Some 0.3, Left = Some 0.1, Top = Some 0.4\<rparr>\<rparr>]\<rparr>,
      \<lparr>Name = Some ''interior design'', Confidence = c2, Instances = insts\<rparr>]
   = [\<lparr>Name = Some ''chair'', Confidence = c1,
       Instances = Some [\<lparr>BoundingBox =
         Some \<lparr>Width = Some 0.3, Height = Some 0.3, Left = Some 0.1, Top = Some 0.4\<rparr>\<rparr>]\<rparr>]
   \<and> describeLabels numToStr
     [\<lparr>Name = Some ''chair'', Confidence = c1,
       Instances = Some [\<lparr>BoundingBox =
         Some \<lparr>Width = Some 0.3, Height = Some 0.3, Left = Some 0.1, Top = Some 0.4\<rparr>\<rparr>]\<rparr>,
      \<lparr>Name = Some ''interior design'', Confidence = c2, Instances = insts\<rparr>]
     None
   = ''Objects detected. I see a chair about 8 to 10 feet away on your left.''"
proof -
  let ?chair = "\<lparr>Name = Some ''chair'', Confidence = c1,
       Instances = Some [\<lparr>BoundingBox =
         Some \<lparr>Width = Some 0.3, Height = Some 0.3, Left = Some 0.1, Top = Some 0.4\<rparr>\<rparr>]\<rparr>"
  let ?interior = "\<lparr>Name = Some ''interior design'', Confidence = c2, Instances = insts\<rparr>"
  have phys: "physicalObjects [?chair, ?interior] = [?chair]"
    by (simp add: physicalObjects_def keep_chair not_keep_interior_design)
  have name: "lowerName ?chair ''object'' = ''chair''"
  proof -
    have "toLowerCase ''chair'' = ''chair''"
      by code_simp
    then show ?thesis
      by (simp add: lowerName_def)
  qed
  have dist: "objectDistance ?chair = ''8 to 10 feet''"
    by (simp add: objectDistance_def firstBox_def boxArea_def orZero_def distanceOfArea_def)
  have dir: "direction ?chair = ''on your left''"
    by (simp add: direction_def firstBox_def directionOfBox_def directionOfCenter_def
        centerX_def centerY_def orZero_def horizontal_def vertical_def)
  have "describeObject None ''Objects detected. '' 0 ?chair
          = ''Objects detected. I see a chair about 8 to 10 feet away on your left''"
    unfolding describeObject_def name dist dir by (simp add: falsy_def)
  then have "synthesize numToStr [?chair] None
          = ''Objects detected. I see a chair about 8 to 10 feet away on your left.''"
    by (simp add: synthesize_def topObjects_def)
  then show ?thesis
    unfolding describeLabels_def phys by simp
qed

text \<open>Claim C1 as it is stated fails: the description is not the sentence with "4 to 6 feet".\<close>

theorem scenario_not_four_to_six_feet:
  "describeLabels decimalString [chairLabel, interiorLabel] None
     \<noteq> ''Objects detected. I see a chair about 4 to 6 feet away on your left.''"
  by code_simp

lemma firstBox_firstInstanceOnly: "firstBox (firstInstanceOnly l) = firstBox l"
  by (simp add: firstBox_def firstInstanceOnly_def split: option.splits list.splits)

lemma lowerName_firstInstanceOnly: "lowerName (firstInstanceOnly l) dflt = lowerName l dflt"
  by (simp add: lowerName_def firstInstanceOnly_def)

lemma keepLabel_firstInstanceOnly: "keepLabel (firstInstanceOnly l) = keepLabel l"
proof -
  have "(case Instances (firstInstanceOnly l) of None \<Rightarrow> False | Some is \<Rightarrow> length is > 0)
        = (case Instances l of None \<Rightarrow> False | Some is \<Rightarrow> length is > 0)"
    by (cases "Instances l") (simp_all add: firstInstanceOnly_def)
  then show ?thesis
    by (simp add: keepLabel_def lowerName_firstInstanceOnly)
qed

lemma describeObject_firstInstanceOnly:
  "describeObject rd desc i (firstInstanceOnly l) = describeObject rd desc i l"
proof -
  have "objectDistance (firstInstanceOnly l) = objectDistance l"
    by (simp add: objectDistance_def firstBox_firstInstanceOnly)
  moreover have "direction (firstInstanceOnly l) = direction l"
    by (simp add: direction_def firstBox_firstInstanceOnly)
  ultimately show ?thesis
    unfolding describeObject_def lowerName_firstInstanceOnly by (simp only:)
qed

lemma forEach_firstInstanceOnly:
  "forEach rd i (map firstInstanceOnly ls) desc = forEach rd i ls desc"
  by (induction ls arbitrary: i desc) (simp_all add: describeObject_firstInstanceOnly)

lemma physicalObjects_firstInstanceOnly:
  "physicalObjects (map firstInstanceOnly ls) = map firstInstanceOnly (physicalObjects ls)"
  by (simp add: physicalObjects_def filter_map comp_def keepLabel_firstInstanceOnly)

lemma describeLabels_firstInstanceOnly:
  "describeLabels f (map firstInstanceOnly allLabels) d = describeLabels f allLabels d"
  by (simp add: describeLabels_def synthesize_def physicalObjects_firstInstanceOnly
      topObjects_def take_map forEach_firstInstanceOnly)

lemma describeObject_first_box:
  assumes "Instances l = Some (\<lparr>BoundingBox = Some box\<rparr> # rest)"
  shows "describeObject realDistance description index l
           = description @ (if index = 0 then ''I see a '' else '', a '') @ lowerName l ''object''
               @ (if falsy realDistance then '' about '' @ distanceOfArea (boxArea box) @ '' away''
                  else [])
               @ '' '' @ directionOfBox box"
proof -
  have d: "objectDistance l = distanceOfArea (boxArea box)"
    using assms by (simp add: objectDistance_def firstBox_def)
  have e: "direction l = directionOfBox box"
    using assms by (simp add: direction_def firstBox_def)
  show ?thesis
    unfolding describeObject_def d e
    by (simp add: Let_def distanceOfArea_not_empty directionOfBox_not_empty)
qed

text \<open>
  Claim C10. Removing every instance after the first from every label changes nothing
  in the description. When the first instance has a box, the distance and the direction
  of the label are those of that box, and the label is narrated with them: its name,
  the distance of that box when there is no distance reading (or the reading is zero),
  and the direction of that box. When the first instance has no box, the label is
  narrated by its name alone.
\<close>

theorem first_instance_only:
  "describeLabels numToStr (map firstInstanceOnly allLabels) realDistance
     = describeLabels numToStr allLabels realDistance
   \<and> (Instances l = Some (\<lparr>BoundingBox = Some box\<rparr> # rest) \<longrightarrow>
        objectDistance l = distanceOfArea (boxArea box) \<and> direction l = directionOfBox box
        \<and> describeObject realDistance description index l
            = description @ (if index = 0 then ''I see a '' else '', a '')
                @ lowerName l ''object''
                @ (if falsy realDistance
                   then '' about '' @ distanceOfArea (boxArea box) @ '' away'' else [])
                @ '' '' @ directionOfBox box)
   \<and> (Instances l = Some (\<lparr>BoundingBox = None\<rparr> # rest) \<longrightarrow>
        describeObject realDistance description index l
          = description @ (if index = 0 then ''I see a '' else '', a '') @ lowerName l ''object'')"
proof (intro conjI impI)
  show "describeLabels numToStr (map firstInstanceOnly allLabels) realDistance
          = describeLabels numToStr allLabels realDistance"
    by (rule describeLabels_firstInstanceOnly)
next
  assume "Instances l = Some (\<lparr>BoundingBox = Some box\<rparr> # rest)"
  then show "objectDistance l = distanceOfArea (boxArea box)"
    by (simp add: objectDistance_def firstBox_def)
next
  assume "Instances l = Some (\<lparr>BoundingBox = Some box\<rparr> # rest)"
  then show "direction l = directionOfBox box"
    by (simp add: direction_def firstBox_def)
next
  assume "Instances l = Some (\<lparr>BoundingBox = Some box\<rparr> # rest)"
  then show "describeObject realDistance description index l
               = description @ (if index = 0 then ''I see a '' else '', a '')
                   @ lowerName l ''object''
                   @ (if falsy realDistance
                      then '' about '' @ distanceOfArea (boxArea box) @ '' away'' else [])
                   @ '' '' @ directionOfBox box"
    by (rule describeObject_first_box)
next
  assume "Instances l = Some (\<lparr>BoundingBox = None\<rparr> # rest)"
  then show "describeObject realDistance description index l
               = description @ (if index = 0 then ''I see a '' else '', a '')
                   @ lowerName l ''object''"
    by (simp add: objectDistance_def direction_def firstBox_def describeObject_def)
qed

text \<open>
  The theorem at the chair, whose only instance has a box, without a distance reading
  and with the reading 4.2, and at the lamp, whose first instance has no box and whose
  second one has.
\<close>

theorem first_instance_only_witness:
  "Instances chairLabel
     = Some (\<lparr>BoundingBox =
         Some \<lparr>Width = Some 0.3, Height = Some 0.3, Left = Some 0.1, Top = Some 0.4\<rparr>\<rparr> # [])
   \<and> objectDistance chairLabel = ''8 to 10 feet''
   \<and> direction chairLabel = ''on your left''
   \<and> describeObject None ''Objects detected. '' 0 chairLabel
       = ''Objects detected. I see a chair about 8 to 10 feet away on your left''
   \<and> describeObject (Some 4.2) ''I see a lamp'' 1 chairLabel
       = ''I see a lamp, a chair on your left''
   \<and> Instances lampLabel
     = Some (\<lparr>BoundingBox = None\<rparr>
         # [\<lparr>BoundingBox =
             Some \<lparr>Width = Some 0.5, Height = Some 0.8, Left = Some 0, Top = Some 0\<rparr>\<rparr>])
   \<and> describeObject None ''Objects detected. '' 0 lampLabel = ''Objects detected. I see a lamp''
   \<and> describeLabels decimalString (map firstInstanceOnly [lampLabel, chairLabel]) None
     = describeLabels decimalString [lampLabel, chairLabel] None"
proof -
  let ?box = "\<lparr>Width = Some 0.3, Height = Some 0.3, Left = Some 0.1, Top = Some 0.4\<rparr>"
  let ?rest = "[\<lparr>BoundingBox =
             Some \<lparr>Width = Some 0.5, Height = Some 0.8, Left = Some 0, Top = Some 0\<rparr>\<rparr>]"
  have c: "Instances chairLabel = Some (\<lparr>BoundingBox = Some ?box\<rparr> # [])"
    by (simp add: chairLabel_def)
  have l: "Instances lampLabel = Some (\<lparr>BoundingBox = None\<rparr> # ?rest)"
    by (simp add: lampLabel_def)
  have area: "distanceOfArea (boxArea ?box) = ''8 to 10 feet''"
    by (simp add: boxArea_def orZero_def distanceOfArea_def)
  have dir: "directionOfBox ?box = ''on your left''"
    by (simp add: directionOfBox_def directionOfCenter_def centerX_def centerY_def orZero_def
        horizontal_def vertical_def)
  have name: "lowerName lampLabel ''object'' = ''lamp''"
    by code_simp
  have chair: "lowerName chairLabel ''object'' = ''chair''"
    by code_simp
  have f: "falsy None" "\<not> falsy (Some 4.2)"
    by (simp_all add: falsy_def)
  have "objectDistance chairLabel = ''8 to 10 feet'' \<and> direction chairLabel = ''on your left''"
    using first_instance_only [where l = chairLabel and box = ?box and rest = "[]"] c area dir
    by simp
  moreover have "describeObject None ''Objects detected. '' 0 chairLabel
                   = ''Objects detected. I see a chair about 8 to 10 feet away on your left''"
    using first_instance_only [where l = chairLabel and box = ?box and rest = "[]"
        and realDistance = None and description = "''Objects detected. ''" and index = 0]
      c area dir chair f
    by simp
  moreover have "describeObject (Some 4.2) ''I see a lamp'' 1 chairLabel
                   = ''I see a lamp, a chair on your left''"
    using first_instance_only [where l = chairLabel and box = ?box and rest = "[]"
        and realDistance = "Some 4.2" and description = "''I see a lamp''" and index = 1]
      c area dir chair f
    by simp
  moreover have "describeObject None ''Objects detected. '' 0 lampLabel
                   = ''Objects detected. I see a lamp''"
    using first_instance_only [where l = lampLabel and rest = ?rest and realDistance = None
        and description = "''Objects detected. ''" and index = 0] l name
    by simp
  moreover have "describeLabels decimalString (map firstInstanceOnly [lampLabel, chairLabel]) None
                   = describeLabels decimalString [lampLabel, chairLabel] None"
    using first_instance_only [where numToStr = decimalString
        and allLabels = "[lampLabel, chairLabel]" and realDistance = None] by blast
  ultimately show ?thesis
    using c l by blast
qed

section \<open>Properties of the capture cycle\<close>

lemma applyEvent_speakText: "foldl applyEvent s (speakText w t) = s"
  by (cases "Speech w t") (simp_all add: speakText_def)

lemma TakePicture_notin_speakText: "TakePicture \<notin> set (speakText w t)"
  by (cases "Speech w t") (simp_all add: speakText_def)

lemma dropWhile_speakText:
  "dropWhile (\<lambda>ev. ev \<noteq> TakePicture) (speakText w t @ rest)
     = dropWhile (\<lambda>ev. ev \<noteq> TakePicture) rest"
  using TakePicture_notin_speakText [of w t] by (simp add: dropWhile_append)

lemma gather_rejected_capture:
  "CameraModule_takePicture w = Rejected err \<Longrightarrow> gather w s = ([TakePicture], Inl err)"
  by (simp add: gather_def)

lemma takePicture_cancelled:
  assumes "\<not> analyzing s" and "CameraModule w"
    and "CameraModule_takePicture w = Rejected err" and "code err = Some ''CANCELLED''"
  shows "takePicture w s =
           [SetAnalyzing True] @ speakText w ''Opening camera''
             @ [TakePicture, SetResult [], SetAnalyzing False, SetAnalyzing False]"
  using assms by (simp add: takePicture_def tryBlock_def gather_rejected_capture catchBlock_def)

text \<open>
  Claim C9. When the camera rejects with the code CANCELLED, the cycle consists of the
  announcement "Opening camera", the call of the camera, and the resets: nothing is
  uploaded, analysed, spoken or alerted after the call of the camera, the result text
  ends empty and the busy flag ends false.
\<close>

theorem cancelled_capture_aborts:
  assumes "\<not> analyzing s" and "CameraModule w"
    and "CameraModule_takePicture w = Rejected err" and "code err = Some ''CANCELLED''"
  shows "takePicture w s =
           [SetAnalyzing True] @ speakText w ''Opening camera''
             @ [TakePicture, SetResult [], SetAnalyzing False, SetAnalyzing False]
         \<and> afterCapture (takePicture w s) = [SetResult [], SetAnalyzing False, SetAnalyzing False]
         \<and> result (stateAfter s (takePicture w s)) = []
         \<and> \<not> analyzing (stateAfter s (takePicture w s))"
proof -
  note tr = takePicture_cancelled [OF assms]
  have "afterCapture (takePicture w s) = [SetResult [], SetAnalyzing False, SetAnalyzing False]"
    unfolding tr afterCapture_def by (simp add: dropWhile_speakText)
  moreover have "stateAfter s (takePicture w s) = s\<lparr>analyzing := False, result := []\<rparr>"
    unfolding tr stateAfter_def by (simp add: applyEvent_speakText)
  ultimately show ?thesis
    using tr by simp
qed

text \<open>The theorem at a cycle that starts with an old error on the screen.\<close>

theorem cancelled_capture_aborts_witness:
  "\<not> analyzing idleState \<and> CameraModule cancelWorld
   \<and> CameraModule_takePicture cancelWorld = Rejected cancelledError
   \<and> code cancelledError = Some ''CANCELLED''
   \<and> takePicture cancelWorld idleState
       = [SetAnalyzing True, SpeechStop, SpeechSpeak ''Opening camera'', TakePicture,
          SetResult [], SetAnalyzing False, SetAnalyzing False]
   \<and> afterCapture (takePicture cancelWorld idleState)
       = [SetResult [], SetAnalyzing False, SetAnalyzing False]
   \<and> result (stateAfter idleState (takePicture cancelWorld idleState)) = []
   \<and> \<not> analyzing (stateAfter idleState (takePicture cancelWorld idleState))"
proof -
  have h1: "\<not> analyzing idleState"
    by (simp add: idleState_def)
  have h2: "CameraModule cancelWorld"
    by (simp add: cancelWorld_def plainWorld_def)
  have h3: "CameraModule_takePicture cancelWorld = Rejected cancelledError"
    by (simp add: cancelWorld_def)
  have h4: "code cancelledError = Some ''CANCELLED''"
    by (simp add: cancelledError_def)
  have sp: "speakText cancelWorld ''Opening camera'' = [SpeechStop, SpeechSpeak ''Opening camera'']"
    by (simp add: speakText_def cancelWorld_def plainWorld_def)
  note t = cancelled_capture_aborts [OF h1 h2 h3 h4]
  have tr: "takePicture cancelWorld idleState
              = [SetAnalyzing True, SpeechStop, SpeechSpeak ''Opening camera'', TakePicture,
                 SetResult [], SetAnalyzing False, SetAnalyzing False]"
    using t sp by simp
  show ?thesis
    using h1 h2 h3 h4 tr t by blast
qed

lemma result_after_description:
  "result (stateAfter s (pre @ [SetResult d] @ speakText w t @ [SetAnalyzing b])) = d"
  by (simp add: stateAfter_def applyEvent_speakText)

lemma takePicture_success:
  assumes "\<not> analyzing s" and "CameraModule w" and "snd (gather w s) = Inr (phys, rd)"
  shows "result (stateAfter s (takePicture w s)) = synthesize (numberToString w) phys rd"
proof -
  obtain evs where g: "gather w s = (evs, Inr (phys, rd))"
    using assms(3) by (cases "gather w s") simp
  have "takePicture w s =
          ([SetAnalyzing True] @ speakText w ''Opening camera'' @ evs)
            @ [SetResult (synthesize (numberToString w) phys rd)]
            @ speakText w (synthesize (numberToString w) phys rd) @ [SetAnalyzing False]"
    using assms(1,2) by (simp add: takePicture_def tryBlock_def g Let_def)
  then show ?thesis
    by (simp only: result_after_description)
qed

lemma gather_resolved:
  assumes "CameraModule_takePicture w = Resolved (Some \<lparr>base64 = Some enc\<rparr>)" and "enc \<noteq> []"
    and "atob w enc = Resolved bin" and "s3Client_send w = Resolved ()"
    and "rekognitionClient_send w = Resolved (Some ls)"
  shows "snd (gather w s)
           = Inr (physicalObjects ls,
                  snd (if hasLiDAR s then getARKitDistance w s else ([], None)))"
  using assms by (simp add: gather_def base64ToUint8Array_def Let_def split_beta)

lemma keepLabel_chairLabel: "keepLabel chairLabel"
  by code_simp

lemma not_keepLabel_interiorLabel: "\<not> keepLabel interiorLabel"
  by code_simp

lemma gather_plainWorld: "snd (gather plainWorld idleState) = Inr ([chairLabel], None)"
proof -
  have "snd (gather plainWorld idleState)
          = Inr (physicalObjects [chairLabel, interiorLabel],
                 snd (if hasLiDAR idleState then getARKitDistance plainWorld idleState
                      else ([], None)))"
    by (rule gather_resolved [where enc = "''SlBFRw==''" and bin = "''JPEG''"])
      (simp_all add: plainWorld_def)
  then show ?thesis
    by (simp add: physicalObjects_def keepLabel_chairLabel not_keepLabel_interiorLabel
        idleState_def)
qed

lemma gather_lidarWorld: "snd (gather lidarWorld lidarState) = Inr ([chairLabel], None)"
proof -
  have "snd (gather lidarWorld lidarState)
          = Inr (physicalObjects [interiorLabel, chairLabel],
                 snd (if hasLiDAR lidarState then getARKitDistance lidarWorld lidarState
                      else ([], None)))"
    by (rule gather_resolved [where enc = "''SlBFRw==''" and bin = "''JPEG''"])
      (simp_all add: lidarWorld_def plainWorld_def)
  then show ?thesis
    by (simp add: physicalObjects_def keepLabel_chairLabel not_keepLabel_interiorLabel
        lidarState_def getARKitDistance_def lidarWorld_def plainWorld_def)
qed

lemma gather_zeroDepthWorld: "snd (gather zeroDepthWorld lidarState) = Inr ([chairLabel], Some 0)"
proof -
  have "snd (gather zeroDepthWorld lidarState)
          = Inr (physicalObjects [chairLabel, interiorLabel],
                 snd (if hasLiDAR lidarState then getARKitDistance zeroDepthWorld lidarState
                      else ([], None)))"
    by (rule gather_resolved [where enc = "''SlBFRw==''" and bin = "''JPEG''"])
      (simp_all add: zeroDepthWorld_def plainWorld_def)
  then show ?thesis
    by (simp add: physicalObjects_def keepLabel_chairLabel not_keepLabel_interiorLabel
        lidarState_def getARKitDistance_def zeroDepthWorld_def plainWorld_def)
qed

text \<open>
  Claim C8. Two cycles that reach the synthesis with the same filtered labels and the
  same distance reading end with the same description on the screen, whatever else
  differs between them: the state they start from, the photo, the time, the bucket, the
  labels that the filter dropped, the answers of the speech engine. The description is
  the value of \<open>synthesize\<close> at that pair.
\<close>

theorem description_depends_on_input_only:
  assumes "\<not> analyzing s1" and "CameraModule w1" and "snd (gather w1 s1) = Inr (phys, rd)"
    and "\<not> analyzing s2" and "CameraModule w2" and "snd (gather w2 s2) = Inr (phys, rd)"
    and "numberToString w1 = numberToString w2"
  shows "result (stateAfter s1 (takePicture w1 s1)) = result (stateAfter s2 (takePicture w2 s2))
         \<and> result (stateAfter s1 (takePicture w1 s1)) = synthesize (numberToString w1) phys rd"
  using takePicture_success [OF assms(1-3)] takePicture_success [OF assms(4-6)] assms(7)
  by simp

text \<open>
  The theorem at two cycles: one without a depth sensor, the other with a sensor whose
  reading fails, a failing speech engine, another bucket and time, and the labels in
  the other order.
\<close>

theorem description_depends_on_input_only_witness:
  "\<not> analyzing idleState \<and> CameraModule plainWorld
   \<and> snd (gather plainWorld idleState) = Inr ([chairLabel], None)
   \<and> \<not> analyzing lidarState \<and> CameraModule lidarWorld
   \<and> snd (gather lidarWorld lidarState) = Inr ([chairLabel], None)
   \<and> numberToString plainWorld = numberToString lidarWorld
   \<and> result (stateAfter idleState (takePicture plainWorld idleState))
       = result (stateAfter lidarState (takePicture lidarWorld lidarState))
   \<and> result (stateAfter idleState (takePicture plainWorld idleState))
       = ''Objects detected. I see a chair about 8 to 10 feet away on your left.''"
proof -
  have h1: "\<not> analyzing idleState"
    by (simp add: idleState_def)
  have h2: "CameraModule plainWorld"
    by (simp add: plainWorld_def)
  have h3: "snd (gather plainWorld idleState) = Inr ([chairLabel], None)"
    by (rule gather_plainWorld)
  have h4: "\<not> analyzing lidarState"
    by (simp add: lidarState_def)
  have h5: "CameraModule lidarWorld"
    by (simp add: lidarWorld_def plainWorld_def)
  have h6: "snd (gather lidarWorld lidarState) = Inr ([chairLabel], None)"
    by (rule gather_lidarWorld)
  have h7: "numberToString plainWorld = numberToString lidarWorld"
    by (simp add: lidarWorld_def)
  have "synthesize decimalString [chairLabel] None
          = ''Objects detected. I see a chair about 8 to 10 feet away on your left.''"
    by code_simp
  then have v: "synthesize (numberToString plainWorld) [chairLabel] None
             = ''Objects detected. I see a chair about 8 to 10 feet away on your left.''"
    by (simp add: plainWorld_def)
  note t = description_depends_on_input_only [OF h1 h2 h3 h4 h5 h6 h7]
  from t have "result (stateAfter idleState (takePicture plainWorld idleState))
                 = synthesize (numberToString plainWorld) [chairLabel] None"
    by (rule conjunct2)
  then have r: "result (stateAfter idleState (takePicture plainWorld idleState))
                  = ''Objects detected. I see a chair about 8 to 10 feet away on your left.''"
    using v by (rule trans)
  show ?thesis
    using h1 h2 h3 h4 h5 h6 h7 t r by blast
qed

section \<open>A distance reading of zero\<close>

text \<open>
  Claim C2 at the distance reading 0. The leading sentence announces the measured
  distance, and the chair still gets its own "about 8 to 10 feet away": the test
  \<open>!realDistance\<close> takes the number zero for a missing reading, while the test
  \<open>realDistance !== null\<close> of the leading sentence does not. The second equation is the
  whole cycle with a depth sensor that reads 0.
\<close>

theorem zero_distance_keeps_object_distance:
  "synthesize decimalString [chairLabel] (Some 0)
     = ''Objects are approximately 0 feet away. I see a chair about 8 to 10 feet away on your left.''
   \<and> result (stateAfter lidarState (takePicture zeroDepthWorld lidarState))
     = ''Objects are approximately 0 feet away. I see a chair about 8 to 10 feet away on your left.''"
proof -
  have v: "synthesize decimalString [chairLabel] (Some 0)
     = ''Objects are approximately 0 feet away. I see a chair about 8 to 10 feet away on your left.''"
    by code_simp
  have "\<not> analyzing lidarState" and "CameraModule zeroDepthWorld"
    and "numberToString zeroDepthWorld = decimalString"
    by (simp_all add: lidarState_def zeroDepthWorld_def plainWorld_def)
  then have "result (stateAfter lidarState (takePicture zeroDepthWorld lidarState))
               = synthesize decimalString [chairLabel] (Some 0)"
    using takePicture_success [OF _ _ gather_zeroDepthWorld] by simp
  then show ?thesis
    using v by simp
qed

text \<open>With a reading other than zero no object gets a distance of its own.\<close>

lemma describeObject_measured:
  assumes "d \<noteq> 0"
  shows "describeObject (Some d) description index l
           = description @ (if index = 0 then ''I see a '' else '', a '') @ lowerName l ''object''
               @ (if direction l \<noteq> [] then '' '' @ direction l else [])"
  using assms by (simp add: describeObject_def falsy_def)

end
